theory Spec2Isabelle
  imports Complex_Main "HOL-Library.Char_ord" "HOL-Library.List_Lexorder"
begin

section \<open>Python values and exceptions\<close>

text \<open>
  The scripts work on the values that \<^verbatim>\<open>response.json()\<close> returns: \<^verbatim>\<open>None\<close>, booleans,
  numbers, strings, lists and dicts. A dict is kept as the list of its items in iteration
  (insertion) order. Numbers are exact rationals: integers and finite floats are rationals,
  and the order on them is the one Python uses; the rounding of float arithmetic and the
  non-finite floats are outside the model. A string is a list of characters, one per code
  point.
\<close>

datatype json =
    JNull
  | JBool bool
  | JNum rat
  | JStr string
  | JArr "json list"
  | JObj "(string \<times> json) list"

text \<open>The exception classes the modelled code can raise or catch.\<close>

datatype exn =
    KeyError
  | IndexError
  | TypeError
  | ValueError
  | AttributeError
  | ImportError
  | IOError
  | SystemExit

text \<open>Sequencing of fallible steps: the first exception ends the computation.\<close>

definition bindE :: "'e + 'a \<Rightarrow> ('a \<Rightarrow> 'e + 'b) \<Rightarrow> 'e + 'b" where
  "bindE m f = (case m of Inl e \<Rightarrow> Inl e | Inr v \<Rightarrow> f v)"


text \<open>The numeric value of a number; \<^verbatim>\<open>bool\<close> is a subclass of \<^verbatim>\<open>int\<close>.\<close>

fun num_of :: "json \<Rightarrow> rat option" where
  "num_of (JNum r) = Some r"
| "num_of (JBool b) = Some (if b then 1 else 0)"
| "num_of JNull = None"
| "num_of (JStr s) = None"
| "num_of (JArr xs) = None"
| "num_of (JObj kvs) = None"

text \<open>\<^verbatim>\<open>v[key]\<close> with a string key.\<close>

fun py_getitem :: "json \<Rightarrow> string \<Rightarrow> exn + json" where
  "py_getitem (JObj kvs) k = (case map_of kvs k of None \<Rightarrow> Inl KeyError | Some v \<Rightarrow> Inr v)"
| "py_getitem JNull k = Inl TypeError"
| "py_getitem (JBool b) k = Inl TypeError"
| "py_getitem (JNum r) k = Inl TypeError"
| "py_getitem (JStr s) k = Inl TypeError"
| "py_getitem (JArr xs) k = Inl TypeError"

text \<open>\<^verbatim>\<open>v[i]\<close> with a non-negative integer literal. The keys of a parsed JSON object are
  strings, so an integer is never a key of a dict.\<close>

fun py_index :: "json \<Rightarrow> nat \<Rightarrow> exn + json" where
  "py_index (JArr xs) i = (if i < length xs then Inr (xs ! i) else Inl IndexError)"
| "py_index (JStr s) i = (if i < length s then Inr (JStr [s ! i]) else Inl IndexError)"
| "py_index (JObj kvs) i = Inl KeyError"
| "py_index JNull i = Inl TypeError"
| "py_index (JBool b) i = Inl TypeError"
| "py_index (JNum r) i = Inl TypeError"

text \<open>\<^verbatim>\<open>a - b\<close>: defined on numbers only.\<close>

definition py_sub :: "json \<Rightarrow> json \<Rightarrow> exn + json" where
  "py_sub a b =
     (case (num_of a, num_of b) of
        (Some x, Some y) \<Rightarrow> Inr (JNum (x - y))
      | _ \<Rightarrow> Inl TypeError)"

text \<open>\<^verbatim>\<open>a + b\<close>: addition of numbers, concatenation of two strings or of two lists.\<close>

fun py_add :: "json \<Rightarrow> json \<Rightarrow> exn + json" where
  "py_add (JStr s) (JStr t) = Inr (JStr (s @ t))"
| "py_add (JArr xs) (JArr ys) = Inr (JArr (xs @ ys))"
| "py_add a b =
     (case (num_of a, num_of b) of
        (Some x, Some y) \<Rightarrow> Inr (JNum (x + y))
      | _ \<Rightarrow> Inl TypeError)"

text \<open>\<^verbatim>\<open>a == b\<close>: numbers by value, strings and lists by content, dicts by their key sets and
  the values under each key.\<close>

fun py_eq :: "json \<Rightarrow> json \<Rightarrow> bool" where
  "py_eq JNull JNull = True"
| "py_eq (JStr s) (JStr t) = (s = t)"
| "py_eq (JArr xs) (JArr ys) = list_all2 py_eq xs ys"
| "py_eq (JObj a) (JObj b) =
     (length a = length b \<and>
      list_all (\<lambda>(k, v). list_ex (\<lambda>(k', v'). k = k' \<and> py_eq v v') b) a)"
| "py_eq a b =
     (case (num_of a, num_of b) of
        (Some x, Some y) \<Rightarrow> x = y
      | _ \<Rightarrow> False)"

text \<open>\<^verbatim>\<open>a > b\<close>: numbers by value, strings and lists lexicographically; every other pair of
  types is unordered.\<close>

fun py_gt :: "json \<Rightarrow> json \<Rightarrow> exn + bool" where
  "py_gt (JStr s) (JStr t) = Inr (t < s)"
| "py_gt (JArr []) (JArr ys) = Inr False"
| "py_gt (JArr (x # xs)) (JArr []) = Inr True"
| "py_gt (JArr (x # xs)) (JArr (y # ys)) =
     (if py_eq x y then py_gt (JArr xs) (JArr ys) else py_gt x y)"
| "py_gt a b =
     (case (num_of a, num_of b) of
        (Some x, Some y) \<Rightarrow> Inr (y < x)
      | _ \<Rightarrow> Inl TypeError)"

text \<open>\<^verbatim>\<open>d.items()\<close>: only a dict has the method.\<close>

fun py_items :: "json \<Rightarrow> exn + (string \<times> json) list" where
  "py_items (JObj kvs) = Inr kvs"
| "py_items JNull = Inl AttributeError"
| "py_items (JBool b) = Inl AttributeError"
| "py_items (JNum r) = Inl AttributeError"
| "py_items (JStr s) = Inl AttributeError"
| "py_items (JArr xs) = Inl AttributeError"

text \<open>\<^verbatim>\<open>max(items, key=lambda x: x[1])\<close>: the first item is the candidate, and a later item
  replaces it only when its key is strictly greater; an empty iterable raises
  \<^verbatim>\<open>ValueError\<close>.\<close>

fun max_loop :: "string \<times> json \<Rightarrow> (string \<times> json) list \<Rightarrow> exn + (string \<times> json)" where
  "max_loop best [] = Inr best"
| "max_loop best (item # rest) =
     (case py_gt (snd item) (snd best) of
        Inl e \<Rightarrow> Inl e
      | Inr b \<Rightarrow> if b then max_loop item rest else max_loop best rest)"

definition py_max_by_value :: "(string \<times> json) list \<Rightarrow> exn + (string \<times> json)" where
  "py_max_by_value items =
     (case items of [] \<Rightarrow> Inl ValueError | first # rest \<Rightarrow> max_loop first rest)"

section \<open>main.py: the face and OCR demos\<close>

text \<open>Line 316 of main.py, the dominant emotion of a face object:
  \<^verbatim>\<open>max(face["faceAttributes"]["emotion"].items(), key=lambda x: x[1])[0]\<close>.\<close>

definition dominant_emotion :: "json \<Rightarrow> exn + string" where
  "dominant_emotion face =
     bindE (py_getitem face ''faceAttributes'') (\<lambda>attrs.
     bindE (py_getitem attrs ''emotion'') (\<lambda>emotion.
     bindE (py_items emotion) (\<lambda>items.
     bindE (py_max_by_value items) (\<lambda>best. Inr (fst best)))))"

text \<open>Lines 237 to 240 of main.py, the rectangle that \<^verbatim>\<open>demo_ocr\<close> derives from the
  \<^verbatim>\<open>boundingBox\<close> of an OCR line:
  \<^verbatim>\<open>x = bb[0]; y = bb[1]; w = bb[2] - x; h = bb[5] - y\<close>, where every \<^verbatim>\<open>bb\<close> is
  \<^verbatim>\<open>line["boundingBox"]\<close>.\<close>

definition bounding_at :: "json \<Rightarrow> nat \<Rightarrow> exn + json" where
  "bounding_at line i = bindE (py_getitem line ''boundingBox'') (\<lambda>bb. py_index bb i)"

definition line_box :: "json \<Rightarrow> exn + json list" where
  "line_box line =
     bindE (bounding_at line 0) (\<lambda>x.
     bindE (bounding_at line 1) (\<lambda>y.
     bindE (bindE (bounding_at line 2) (\<lambda>x1. py_sub x1 x)) (\<lambda>w.
     bindE (bindE (bounding_at line 5) (\<lambda>y2. py_sub y2 y)) (\<lambda>h.
     Inr [x, y, w, h]))))"

text \<open>The rectangle in the words of the specification: the minimal enclosing axis-aligned
  rectangle of the four points \<open>(x0, y0), (x1, y1), (x2, y2), (x3, y3)\<close>.\<close>

definition spec_enclosing_rect :: "rat list \<Rightarrow> rat list" where
  "spec_enclosing_rect bb =
     (let xs = [bb ! 0, bb ! 2, bb ! 4, bb ! 6];
          ys = [bb ! 1, bb ! 3, bb ! 5, bb ! 7];
          x = Min (set xs);
          y = Min (set ys)
      in [x, y, Max (set xs) - x, Max (set ys) - y])"

text \<open>An OCR line of the response with the given \<^verbatim>\<open>boundingBox\<close>, for the concrete
  evaluations.\<close>

definition ocr_line :: "rat list \<Rightarrow> json" where
  "ocr_line bb = JObj [(''text'', JStr ''Hi''), (''boundingBox'', JArr (map JNum bb))]"


section \<open>The world the scripts act on\<close>

text \<open>
  Effects are explicit: a script takes the world and returns it updated. \<open>stdout\<close> holds
  the text of every \<^verbatim>\<open>print\<close> call in order, \<open>posts\<close> the requests handed to
  \<^verbatim>\<open>requests.post\<close>, \<open>sdk_calls\<close> the number of \<^verbatim>\<open>client.analyze\<close> calls, \<open>files\<close> the file
  system (\<open>Inl m\<close>: opening the path raises an \<^verbatim>\<open>OSError\<close> whose text is \<open>m\<close>) and \<open>images\<close>
  the image objects of the imaging library, an object's address being its index.
\<close>

record request =
  url :: string
  headers :: "(string \<times> string) list"
  params :: "(string \<times> string) list"
  data :: string

record response =
  status_code :: nat
  reason :: string
  resp_url :: string
  body :: string

record 'img world =
  stdout :: "string list"
  posts :: "request list"
  sdk_calls :: nat
  files :: "string \<Rightarrow> string + string"
  images :: "'img list"

definition print :: "string \<Rightarrow> 'img world \<Rightarrow> 'img world" where
  "print s w = w\<lparr>stdout := stdout w @ [s]\<rparr>"


text \<open>
  What the HTTP library and the remote service do is a parameter. Inside the scripts'
  \<^verbatim>\<open>try\<close> blocks every exception is caught by \<^verbatim>\<open>except Exception as e\<close> and only
  \<^verbatim>\<open>str(e)\<close> is used, so a failing call is \<open>Inl m\<close> with \<open>m\<close> that text.
\<close>

record http_lib =
  post :: "request \<Rightarrow> string + response"
  json_loads :: "string \<Rightarrow> string + json"

text \<open>Decimal digits of a natural number, as an f-string prints an \<^verbatim>\<open>int\<close>.\<close>

function show_nat :: "nat \<Rightarrow> string" where
  "show_nat n =
     (if n < 10 then [''0123456789'' ! n]
      else show_nat (n div 10) @ [''0123456789'' ! (n mod 10)])"
  by pat_completeness auto
termination
  by (relation "measure id") auto

declare show_nat.simps [simp del]

text \<open>The same for an integer of either sign.\<close>

definition show_int :: "int \<Rightarrow> string" where
  "show_int i = (if i < 0 then ''-'' @ show_nat (nat (- i)) else show_nat (nat i))"

text \<open>\<^verbatim>\<open>Response.raise_for_status\<close> of the HTTP library: an \<^verbatim>\<open>HTTPError\<close> for a status from
  400 to 599 and nothing otherwise; the text of the exception names the status, the reason
  phrase and the URL.\<close>

definition raise_for_status :: "response \<Rightarrow> string + unit" where
  "raise_for_status r =
     (if 400 \<le> status_code r \<and> status_code r < 500
      then Inl (show_nat (status_code r) @ '' Client Error: '' @ reason r @ '' for url: '' @ resp_url r)
      else if 500 \<le> status_code r \<and> status_code r < 600
      then Inl (show_nat (status_code r) @ '' Server Error: '' @ reason r @ '' for url: '' @ resp_url r)
      else Inr ())"

text \<open>\<^verbatim>\<open>sep.join(xs)\<close>.\<close>

fun py_join :: "string \<Rightarrow> string list \<Rightarrow> string" where
  "py_join sep [] = []"
| "py_join sep [x] = x"
| "py_join sep (x # y # ys) = x @ sep @ py_join sep (y # ys)"

section \<open>main.py: configuration and the HTTP calls\<close>

text \<open>Lines 32 and 33: \<^verbatim>\<open>ENDPOINT = os.environ["VISION_ENDPOINT"]\<close> and
  \<^verbatim>\<open>API_KEY = os.environ["VISION_KEY"]\<close>, run when the module is loaded.\<close>

record config =
  ENDPOINT :: string
  API_KEY :: string

definition load_config :: "(string \<Rightarrow> string option) \<Rightarrow> exn + config" where
  "load_config environ =
     (case environ ''VISION_ENDPOINT'' of
        None \<Rightarrow> Inl KeyError
      | Some e \<Rightarrow>
          (case environ ''VISION_KEY'' of
             None \<Rightarrow> Inl KeyError
           | Some k \<Rightarrow> Inr \<lparr>ENDPOINT = e, API_KEY = k\<rparr>))"

text \<open>The headers every request of main.py carries.\<close>

definition key_headers :: "config \<Rightarrow> (string \<times> string) list" where
  "key_headers c =
     [(''Ocp-Apim-Subscription-Key'', API_KEY c),
      (''Content-Type'', ''application/octet-stream'')]"

text \<open>The body of the \<^verbatim>\<open>try\<close> block that \<^verbatim>\<open>analyze_image\<close>, \<^verbatim>\<open>read_image_text\<close> and
  \<^verbatim>\<open>detect_faces\<close> share: read the file, post it once, \<^verbatim>\<open>raise_for_status\<close>, parse the
  JSON.\<close>

definition post_image ::
  "http_lib \<Rightarrow> config \<Rightarrow> string \<Rightarrow> (string \<times> string) list \<Rightarrow> string \<Rightarrow> 'img world
     \<Rightarrow> (string + json) \<times> 'img world" where
  "post_image L c target ps image_path w =
     (case files w image_path of
        Inl m \<Rightarrow> (Inl m, w)
      | Inr image_data \<Rightarrow>
          (let req = \<lparr>url = target, headers = key_headers c, params = ps, data = image_data\<rparr>;
               w1 = w\<lparr>posts := posts w @ [req]\<rparr>
           in case post L req of
                Inl m \<Rightarrow> (Inl m, w1)
              | Inr resp \<Rightarrow>
                  (case raise_for_status resp of
                     Inl m \<Rightarrow> (Inl m, w1)
                   | Inr u \<Rightarrow> (json_loads L (body resp), w1))))"

text \<open>The handler: \<^verbatim>\<open>except Exception as e: print(f"Error in NAME: {e}"); return None\<close>.\<close>

definition or_none :: "string \<Rightarrow> (string + json) \<times> 'img world \<Rightarrow> json \<times> 'img world" where
  "or_none name r =
     (case fst r of
        Inl m \<Rightarrow> (JNull, print (''Error in '' @ name @ '': '' @ m) (snd r))
      | Inr v \<Rightarrow> (v, snd r))"

text \<open>\<^verbatim>\<open>analyze_image(image_path, features=None)\<close>, lines 77 to 118. \<open>None\<close> is the omitted
  or \<^verbatim>\<open>None\<close> argument. Lines 88 to 96 build the query parameters: \<^verbatim>\<open>if not features\<close>
  replaces \<^verbatim>\<open>None\<close> and the empty list by the default list.\<close>

definition analyze_params :: "string list option \<Rightarrow> (string \<times> string) list" where
  "analyze_params features =
     (let features' =
            (case features of
               None \<Rightarrow> [''tags'', ''objects'', ''caption'']
             | Some fs \<Rightarrow> if fs = [] then [''tags'', ''objects'', ''caption''] else fs)
      in [(''features'', py_join '','' features'),
          (''language'', ''en''),
          (''gender-neutral-caption'', ''false'')])"

definition analyze_image ::
  "http_lib \<Rightarrow> config \<Rightarrow> string \<Rightarrow> string list option \<Rightarrow> 'img world \<Rightarrow> json \<times> 'img world" where
  "analyze_image L c image_path features w =
     (let analyze_url = ENDPOINT c @ ''computervision/imageanalysis:analyze'';
          ps = analyze_params features
      in or_none ''analyze_image'' (post_image L c analyze_url ps image_path w))"

text \<open>\<^verbatim>\<open>read_image_text(image_path)\<close>, lines 171 to 209.\<close>

definition read_image_text ::
  "http_lib \<Rightarrow> config \<Rightarrow> string \<Rightarrow> 'img world \<Rightarrow> json \<times> 'img world" where
  "read_image_text L c image_path w =
     (let ocr_url = ENDPOINT c @ ''computervision/imageanalysis:analyze'';
          ps = [(''features'', ''read''), (''language'', ''en'')]
      in or_none ''read_image_text'' (post_image L c ocr_url ps image_path w))"



section \<open>OCR.py\<close>

text \<open>
  The result of \<^verbatim>\<open>client.analyze\<close>, as far as OCR.py reads it. \<open>result_read = None\<close> is
  \<^verbatim>\<open>result.read is None\<close>; otherwise it holds \<^verbatim>\<open>result.read.blocks\<close>.
\<close>

record word =
  word_text :: string
  word_polygon :: "(int \<times> int) list"
  word_confidence :: rat

record text_line =
  line_text :: string
  line_polygon :: "(int \<times> int) list"
  line_words :: "word list"

record text_block =
  block_lines :: "text_line list"

record caption_result =
  caption_text :: string
  caption_confidence :: rat

record analysis =
  result_caption :: "caption_result option"
  result_read :: "text_block list option"

text \<open>
  The vision SDK and the formatting of the values it returns are parameters:
  \<open>new_client endpoint key\<close> is the construction of the client (\<open>Some e\<close>: it raises),
  \<open>client_analyze endpoint key image_data\<close> the one call
  \<^verbatim>\<open>client.analyze(image_data, [CAPTION, READ, TAGS], gender_neutral_caption=True)\<close>,
  \<open>fmt4\<close> the format \<^verbatim>\<open>:.4f\<close> and \<open>fmt_polygon\<close> the text of a bounding polygon.
\<close>

record sdk =
  new_client :: "string \<Rightarrow> string \<Rightarrow> exn option"
  client_analyze :: "string \<Rightarrow> string \<Rightarrow> string \<Rightarrow> exn + analysis"
  fmt4 :: "rat \<Rightarrow> string"
  fmt_polygon :: "(int \<times> int) list \<Rightarrow> string"

text \<open>\<^verbatim>\<open>not v\<close> for the value of \<^verbatim>\<open>os.getenv\<close>: true for \<^verbatim>\<open>None\<close> and for the empty string.\<close>

definition unset :: "string option \<Rightarrow> bool" where
  "unset v = (case v of None \<Rightarrow> True | Some s \<Rightarrow> s = [])"

definition print_all :: "string list \<Rightarrow> 'img world \<Rightarrow> 'img world" where
  "print_all ls w = fold print ls w"

text \<open>Lines 47 to 49: what the loop prints for one line, the line itself and then each of
  its words.\<close>

definition word_report :: "sdk \<Rightarrow> word \<Rightarrow> string" where
  "word_report S wd =
     ''     Word: '' @ [CHR 0x27] @ word_text wd @ [CHR 0x27] @ '', Bounding polygon '' @
     fmt_polygon S (word_polygon wd) @ '', Confidence '' @ fmt4 S (word_confidence wd)"

definition line_report :: "sdk \<Rightarrow> text_line \<Rightarrow> string list" where
  "line_report S l =
     (''   Line: '' @ [CHR 0x27] @ line_text l @ [CHR 0x27] @ '', Bounding box '' @
      fmt_polygon S (line_polygon l))
     # map (word_report S) (line_words l)"

text \<open>Lines 37 to 49: the report of a result. \<^verbatim>\<open>result.read.blocks[0]\<close> raises
  \<^verbatim>\<open>IndexError\<close> on an empty list of blocks.\<close>

definition report_result :: "sdk \<Rightarrow> analysis \<Rightarrow> 'img world \<Rightarrow> (exn + unit) \<times> 'img world" where
  "report_result S result w =
     (let w1 = print '' Caption:'' (print ''Image analysis results:'' w);
          w2 = (case result_caption result of
                  None \<Rightarrow> w1
                | Some c \<Rightarrow>
                    print (''   '' @ [CHR 0x27] @ caption_text c @ [CHR 0x27] @ '', Confidence '' @
                           fmt4 S (caption_confidence c)) w1);
          w3 = print '' Read:'' w2
      in case result_read result of
           None \<Rightarrow> (Inr (), w3)
         | Some blocks \<Rightarrow>
             (case blocks of
                [] \<Rightarrow> (Inl IndexError, w3)
              | b # rest \<Rightarrow> (Inr (), print_all (concat (map (line_report S) (block_lines b))) w3)))"

text \<open>\<^verbatim>\<open>OCR()\<close>, lines 9 to 49. \<open>environ\<close> is the process environment after
  \<^verbatim>\<open>load_dotenv()\<close>; \<^verbatim>\<open>exit()\<close> raises \<^verbatim>\<open>SystemExit\<close>.\<close>

definition OCR :: "sdk \<Rightarrow> (string \<Rightarrow> string option) \<Rightarrow> 'img world \<Rightarrow> (exn + unit) \<times> 'img world" where
  "OCR S environ w =
     (let endpoint = environ ''VISION_ENDPOINT'';
          key = environ ''VISION_KEY''
      in if unset endpoint \<or> unset key
         then (Inl SystemExit,
               print ''Set them before running this sample.''
                 (print (''Missing environment variable '' @ [CHR 0x27] @ ''VISION_ENDPOINT'' @
                         [CHR 0x27] @ '' or '' @ [CHR 0x27] @ ''VISION_KEY'' @ [CHR 0x27]) w))
         else (case new_client S (the endpoint) (the key) of
                 Some e \<Rightarrow> (Inl e, w)
               | None \<Rightarrow>
                   (case files w ''text_sample.jpg'' of
                      Inl m \<Rightarrow> (Inl IOError, w)
                    | Inr image_data \<Rightarrow>
                        (let w1 = w\<lparr>sdk_calls := sdk_calls w + 1\<rparr>
                         in case client_analyze S (the endpoint) (the key) image_data of
                              Inl e \<Rightarrow> (Inl e, w1)
                            | Inr result \<Rightarrow> report_result S result w1))))"

section \<open>caption.py and objects.py\<close>

text \<open>\<^verbatim>\<open>caption()\<close> of caption.py, lines 9 to 41: the same guard and the same call as in
  OCR.py, on the file \<^verbatim>\<open>scene_sample.jpg\<close>; only the caption is printed.\<close>

definition caption :: "sdk \<Rightarrow> (string \<Rightarrow> string option) \<Rightarrow> 'img world \<Rightarrow> (exn + unit) \<times> 'img world" where
  "caption S environ w =
     (let endpoint = environ ''VISION_ENDPOINT'';
          key = environ ''VISION_KEY''
      in if unset endpoint \<or> unset key
         then (Inl SystemExit,
               print ''Set them before running this sample.''
                 (print (''Missing environment variable '' @ [CHR 0x27] @ ''VISION_ENDPOINT'' @
                         [CHR 0x27] @ '' or '' @ [CHR 0x27] @ ''VISION_KEY'' @ [CHR 0x27]) w))
         else (case new_client S (the endpoint) (the key) of
                 Some e \<Rightarrow> (Inl e, w)
               | None \<Rightarrow>
                   (case files w ''scene_sample.jpg'' of
                      Inl m \<Rightarrow> (Inl IOError, w)
                    | Inr image_data \<Rightarrow>
                        (let w1 = w\<lparr>sdk_calls := sdk_calls w + 1\<rparr>
                         in case client_analyze S (the endpoint) (the key) image_data of
                              Inl e \<Rightarrow> (Inl e, w1)
                            | Inr result \<Rightarrow>
                                (let w2 = print '' Caption:'' (print ''Image analysis results:'' w1)
                                 in (Inr (),
                                     case result_caption result of
                                       None \<Rightarrow> w2
                                     | Some c \<Rightarrow>
                                         print (''   '' @ [CHR 0x27] @ caption_text c @ [CHR 0x27] @
                                                '', Confidence '' @ fmt4 S (caption_confidence c))
                                           w2))))))"

text \<open>
  The result of the call of objects.py, as far as the script reads it: \<open>result_objects\<close> is
  \<open>None\<close> for \<^verbatim>\<open>result.objects is None\<close> and holds \<^verbatim>\<open>result.objects.list\<close> otherwise. The call
  \<^verbatim>\<open>client.analyze(image_data, [OBJECTS])\<close> and the text of a bounding box are parameters.
\<close>

record detected_tag =
  tag_name :: string
  tag_confidence :: rat

record detected_object =
  object_tags :: "detected_tag list"
  object_box :: "int \<times> int \<times> int \<times> int"

record objects_analysis =
  result_objects :: "detected_object list option"
  metadata_height :: int
  metadata_width :: int
  model_version :: string

record objects_lib =
  analyze_objects :: "string \<Rightarrow> string \<Rightarrow> string \<Rightarrow> exn + objects_analysis"
  fmt_box :: "int \<times> int \<times> int \<times> int \<Rightarrow> string"

text \<open>Lines 40 and 41 of objects.py: one line for every object; \<^verbatim>\<open>object.tags[0]\<close> raises
  \<^verbatim>\<open>IndexError\<close> on an object without tags.\<close>

fun objects_loop ::
  "sdk \<Rightarrow> objects_lib \<Rightarrow> detected_object list \<Rightarrow> 'img world \<Rightarrow> (exn + unit) \<times> 'img world" where
  "objects_loop S B [] w = (Inr (), w)"
| "objects_loop S B (obj # rest) w =
     (case object_tags obj of
        [] \<Rightarrow> (Inl IndexError, w)
      | t # ts \<Rightarrow>
          objects_loop S B rest
            (print (''   '' @ [CHR 0x27] @ tag_name t @ [CHR 0x27] @ '', '' @ fmt_box B (object_box obj) @
                    '', Confidence: '' @ fmt4 S (tag_confidence t)) w))"

text \<open>\<^verbatim>\<open>sample_objects_image_file()\<close> of objects.py, lines 9 to 44.\<close>

definition sample_objects_image_file ::
  "sdk \<Rightarrow> objects_lib \<Rightarrow> (string \<Rightarrow> string option) \<Rightarrow> 'img world \<Rightarrow> (exn + unit) \<times> 'img world" where
  "sample_objects_image_file S B environ w =
     (let endpoint = environ ''VISION_ENDPOINT'';
          key = environ ''VISION_KEY''
      in if unset endpoint \<or> unset key
         then (Inl SystemExit,
               print ''Set them before running this sample.''
                 (print (''Missing environment variable '' @ [CHR 0x27] @ ''VISION_ENDPOINT'' @
                         [CHR 0x27] @ '' or '' @ [CHR 0x27] @ ''VISION_KEY'' @ [CHR 0x27]) w))
         else (case new_client S (the endpoint) (the key) of
                 Some e \<Rightarrow> (Inl e, w)
               | None \<Rightarrow>
                   (case files w ''sample.jpg'' of
                      Inl m \<Rightarrow> (Inl IOError, w)
                    | Inr image_data \<Rightarrow>
                        (let w1 = w\<lparr>sdk_calls := sdk_calls w + 1\<rparr>
                         in case analyze_objects B (the endpoint) (the key) image_data of
                              Inl e \<Rightarrow> (Inl e, w1)
                            | Inr result \<Rightarrow>
                                (let w2 = print '' Objects:'' (print ''Image analysis results:'' w1);
                                     listed = (case result_objects result of
                                                 None \<Rightarrow> (Inr (), w2)
                                               | Some objs \<Rightarrow> objects_loop S B objs w2)
                                 in case fst listed of
                                      Inl e \<Rightarrow> (Inl e, snd listed)
                                    | Inr u \<Rightarrow>
                                        (Inr (),
                                         print ('' Model version: '' @ model_version result)
                                           (print ('' Image width: '' @ show_int (metadata_width result))
                                              (print ('' Image height: '' @
                                                      show_int (metadata_height result))
                                                 (snd listed)))))))))"

section \<open>main.py: the annotation renderer\<close>

text \<open>
  The imaging library is a parameter. \<open>image_open\<close> decodes the content of a file
  (\<open>Inl m\<close>: it raises an exception whose text is \<open>m\<close>), \<open>truetype\<close> is
  \<^verbatim>\<open>ImageFont.truetype\<close> and \<open>load_default\<close> is \<^verbatim>\<open>ImageFont.load_default()\<close>, which reads
  data held in the library itself. \<open>rectangle img p q\<close> is the image after
  \<^verbatim>\<open>rectangle([p, q], outline="red", width=2)\<close>, \<open>draw_text img p label font\<close> the image
  after \<^verbatim>\<open>text(p, label, fill="red", font=font)\<close>, and \<open>encode img path\<close> the bytes that
  \<^verbatim>\<open>img.save(path)\<close> writes; each of them may raise instead.
\<close>

record ('img, 'font) pil =
  image_open :: "string \<Rightarrow> string + 'img"
  image_size :: "'img \<Rightarrow> nat \<times> nat"
  truetype :: "string \<Rightarrow> nat \<Rightarrow> exn + 'font"
  load_default :: "'font"
  rectangle :: "'img \<Rightarrow> json \<times> json \<Rightarrow> json \<times> json \<Rightarrow> exn + 'img"
  draw_text :: "'img \<Rightarrow> json \<times> json \<Rightarrow> json \<Rightarrow> 'font \<Rightarrow> exn + 'img"
  encode :: "'img \<Rightarrow> string \<Rightarrow> exn + string"


text \<open>\<^verbatim>\<open>img.copy()\<close>: a new object with the same content.\<close>

definition image_copy :: "nat \<Rightarrow> 'img world \<Rightarrow> nat \<times> 'img world" where
  "image_copy a w = (length (images w), w\<lparr>images := images w @ [images w ! a]\<rparr>)"

text \<open>The values a \<^verbatim>\<open>for\<close> loop or an unpacking takes from an object.\<close>

fun py_iter :: "json \<Rightarrow> exn + json list" where
  "py_iter (JArr xs) = Inr xs"
| "py_iter (JObj kvs) = Inr (map (\<lambda>kv. JStr (fst kv)) kvs)"
| "py_iter (JStr s) = Inr (map (\<lambda>c. JStr [c]) s)"
| "py_iter JNull = Inl TypeError"
| "py_iter (JBool b) = Inl TypeError"
| "py_iter (JNum r) = Inl TypeError"

text \<open>\<^verbatim>\<open>x, y, w, h = v\<close>: exactly four values, \<^verbatim>\<open>ValueError\<close> otherwise.\<close>

definition unpack4 :: "json \<Rightarrow> exn + (json \<times> json \<times> json \<times> json)" where
  "unpack4 v =
     bindE (py_iter v) (\<lambda>vs.
       case vs of [x, y, w, h] \<Rightarrow> Inr (x, y, w, h) | _ \<Rightarrow> Inl ValueError)"

text \<open>Lines 55 to 58: the preferred font, and the built-in one when loading raises
  \<^verbatim>\<open>IOError\<close>; any other exception is not caught.\<close>

definition select_font :: "('img, 'font) pil \<Rightarrow> exn + 'font" where
  "select_font P =
     (case truetype P ''arial.ttf'' 15 of
        Inr f \<Rightarrow> Inr f
      | Inl e \<Rightarrow> if e = IOError then Inr (load_default P) else Inl e)"

text \<open>Lines 61 to 68, the body of the loop for one annotation. The drawing object was made
  from the image object itself, so every drawing call changes that object: the function
  returns the image as it is when the body ends, also when it ends in an exception.\<close>

definition annotate_one ::
  "('img, 'font) pil \<Rightarrow> 'font \<Rightarrow> json \<Rightarrow> 'img \<Rightarrow> exn option \<times> 'img" where
  "annotate_one P font annotation img =
     (case bindE (py_getitem annotation ''box'') unpack4 of
        Inl e \<Rightarrow> (Some e, img)
      | Inr (x, y, w, h) \<Rightarrow>
          (case py_getitem annotation ''label'' of
             Inl e \<Rightarrow> (Some e, img)
           | Inr label \<Rightarrow>
               (case bindE (py_add x w) (\<lambda>x2. bindE (py_add y h) (\<lambda>y2.
                       rectangle P img (x, y) (x2, y2))) of
                  Inl e \<Rightarrow> (Some e, img)
                | Inr img1 \<Rightarrow>
                    (case bindE (py_sub y (JNum 20)) (\<lambda>ty. draw_text P img1 (x, ty) label font) of
                       Inl e \<Rightarrow> (Some e, img1)
                     | Inr img2 \<Rightarrow> (None, img2)))))"

fun annotate_all ::
  "('img, 'font) pil \<Rightarrow> 'font \<Rightarrow> json list \<Rightarrow> 'img \<Rightarrow> exn option \<times> 'img" where
  "annotate_all P font [] img = (None, img)"
| "annotate_all P font (annotation # rest) img =
     (case annotate_one P font annotation img of
        (Some e, img') \<Rightarrow> (Some e, img')
      | (None, img') \<Rightarrow> annotate_all P font rest img')"



text \<open>\<^verbatim>\<open>save_image_with_annotations(original_image, annotations, output_path)\<close>, lines 50
  to 72. \<open>original_image\<close> is the address of the image object the caller passes, an
  index below the number of image objects; the result is the address the function
  returns.\<close>

definition save_image_with_annotations ::
  "('img, 'font) pil \<Rightarrow> nat \<Rightarrow> json list \<Rightarrow> string \<Rightarrow> 'img world \<Rightarrow> (exn + nat) \<times> 'img world" where
  "save_image_with_annotations P original_image annotations output_path w =
     (case select_font P of
        Inl e \<Rightarrow> (Inl e, w)
      | Inr font \<Rightarrow>
          (let drawn = annotate_all P font annotations (images w ! original_image);
               w1 = w\<lparr>images := (images w)[original_image := snd drawn]\<rparr>
           in case fst drawn of
                Some e \<Rightarrow> (Inl e, w1)
              | None \<Rightarrow>
                  (case encode P (snd drawn) output_path of
                     Inl e \<Rightarrow> (Inl e, w1)
                   | Inr bytes \<Rightarrow>
                       (Inr original_image,
                        print (''Annotated image saved to '' @ output_path)
                          (w1\<lparr>files := (files w1)(output_path := Inr bytes)\<rparr>)))))"

text \<open>The call the three demos make (lines 162 to 164, 244 to 246 and 332 to 334):
  \<^verbatim>\<open>if img and annotations: save_image_with_annotations(img.copy(), annotations, path)\<close>.
  An image object is always true.\<close>

definition annotate_copy ::
  "('img, 'font) pil \<Rightarrow> nat option \<Rightarrow> json list \<Rightarrow> string \<Rightarrow> 'img world \<Rightarrow> (exn + unit) \<times> 'img world" where
  "annotate_copy P img annotations output_path w =
     (case img of
        None \<Rightarrow> (Inr (), w)
      | Some a \<Rightarrow>
          if annotations = [] then (Inr (), w)
          else (let c = image_copy a w;
                    r = save_image_with_annotations P (fst c) annotations output_path (snd c)
                in (bindE (fst r) (\<lambda>u. Inr ()), snd r)))"

section \<open>main.py: the face detection demo\<close>








section \<open>Sample data for the concrete evaluations\<close>

text \<open>A face object as the face service returns it; two labels share the highest score.\<close>

definition sample_face :: json where
  "sample_face =
     JObj [(''faceAttributes'',
            JObj [(''age'', JNum 27), (''gender'', JStr ''female''),
                  (''emotion'', JObj [(''sad'', JNum (1/20)), (''happy'', JNum (9/10)),
                                      (''surprise'', JNum (9/10))])])]"

text \<open>A configuration, a file system with one image, and a remote service that answers
  every request with a given status, reason phrase and body; the parser knows three
  bodies.\<close>

definition sample_config :: config where
  "sample_config = \<lparr>ENDPOINT = ''https://vision.example/'', API_KEY = ''secret''\<rparr>"

definition sample_world :: "'img world" where
  "sample_world =
     \<lparr>stdout = [], posts = [], sdk_calls = 0,
      files = (\<lambda>p. if p = ''sample_image.jpg'' then Inr ''JFIF'' else Inl ''No such file''),
      images = []\<rparr>"

definition sample_json_loads :: "string \<Rightarrow> string + json" where
  "sample_json_loads b =
     (if b = ''[]'' then Inr (JArr [])
      else if b = ''null'' then Inr JNull
      else if b = ''[1]'' then Inr (JArr [JNum 1])
      else Inl ''Expecting value'')"

text \<open>The URL of a response is the URL of the request followed by the encoded query
  string. In the values the samples use, the comma is the only character that the encoding
  changes.\<close>

definition sample_query :: "(string \<times> string) list \<Rightarrow> string" where
  "sample_query ps =
     py_join ''&''
       (map (\<lambda>kv. fst kv @ ''='' @ concat (map (\<lambda>c. if c = CHR '','' then ''%2C'' else [c]) (snd kv)))
          ps)"

definition sample_http :: "nat \<Rightarrow> string \<Rightarrow> string \<Rightarrow> http_lib" where
  "sample_http status phrase content =
     \<lparr>post = (\<lambda>req. Inr \<lparr>status_code = status, reason = phrase,
                          resp_url = url req @ ''?'' @ sample_query (params req),
                          body = content\<rparr>),
      json_loads = sample_json_loads\<rparr>"


definition sample_scores :: "(string \<times> rat) list" where
  "sample_scores = [(''sad'', 1/20), (''happy'', 9/10), (''surprise'', 9/10)]"

text \<open>
  An instance of the imaging library on small bitmaps (rows of pixels, \<open>True\<close> for a red
  pixel). The outline of a rectangle is two pixels wide and lies inside the rectangle; the
  glyphs of the font are blank; no scalable font is installed, so \<open>truetype\<close> raises
  \<^verbatim>\<open>IOError\<close>; saving needs a file extension the library knows.
\<close>

type_synonym bitmap = "bool list list"

definition paint :: "(int \<Rightarrow> int \<Rightarrow> bool) \<Rightarrow> bitmap \<Rightarrow> bitmap" where
  "paint inside rows =
     map (\<lambda>(j, row). map (\<lambda>(i, p). p \<or> inside (int i) (int j)) (enumerate 0 row))
       (enumerate 0 rows)"

definition sample_rectangle :: "bitmap \<Rightarrow> json \<times> json \<Rightarrow> json \<times> json \<Rightarrow> exn + bitmap" where
  "sample_rectangle img p q =
     (case (num_of (fst p), num_of (snd p), num_of (fst q), num_of (snd q)) of
        (Some x0, Some y0, Some x1, Some y1) \<Rightarrow>
          Inr (paint (\<lambda>i j. x0 \<le> of_int i \<and> of_int i \<le> x1 \<and> y0 \<le> of_int j \<and> of_int j \<le> y1 \<and>
                         (of_int i < x0 + 2 \<or> x1 - 2 < of_int i \<or>
                          of_int j < y0 + 2 \<or> y1 - 2 < of_int j)) img)
      | _ \<Rightarrow> Inl TypeError)"

definition sample_text :: "bitmap \<Rightarrow> json \<times> json \<Rightarrow> json \<Rightarrow> string \<Rightarrow> exn + bitmap" where
  "sample_text img p label font = (case label of JStr s \<Rightarrow> Inr img | _ \<Rightarrow> Inl TypeError)"

definition sample_encode :: "bitmap \<Rightarrow> string \<Rightarrow> exn + string" where
  "sample_encode img path =
     (if drop (length path - 4) path = ''.jpg'' \<or> drop (length path - 4) path = ''.png''
      then Inr (concat (map (map (\<lambda>p. if p then CHR ''#'' else CHR ''.'')) img))
      else Inl ValueError)"

definition sample_pil :: "(bitmap, string) pil" where
  "sample_pil =
     \<lparr>image_open = (\<lambda>content. if content = ''JFIF''
                                then Inr (replicate 6 (replicate 6 False))
                                else Inl ''cannot identify image file''),
      image_size = (\<lambda>img. (case img of [] \<Rightarrow> 0 | row # rows \<Rightarrow> length row, length img)),
      truetype = (\<lambda>name size. Inl IOError),
      load_default = ''default'',
      rectangle = sample_rectangle,
      draw_text = sample_text,
      encode = sample_encode\<rparr>"

text \<open>A world that holds one blank image of 6 by 6 pixels, and one annotation.\<close>

definition blank_world :: "bitmap world" where
  "blank_world = sample_world\<lparr>images := [replicate 6 (replicate 6 False)]\<rparr>"

definition sample_annotation :: json where
  "sample_annotation =
     JObj [(''box'', JArr [JNum 0, JNum 0, JNum 5, JNum 5]), (''label'', JStr ''Cat'')]"

text \<open>The blank image after the rectangle of the annotation has been drawn on it.\<close>

definition framed :: bitmap where
  "framed =
     [[True, True, True, True, True, True],
      [True, True, True, True, True, True],
      [True, True, False, False, True, True],
      [True, True, False, False, True, True],
      [True, True, True, True, True, True],
      [True, True, True, True, True, True]]"

text \<open>
  A lossy image format for the same bitmaps, in the manner of a format that stores one value
  for a group of neighbouring pixels: a row is written as one character for every pair of
  pixels, red when either pixel is red, and ends with a slash; reading gives both pixels of
  a pair the stored value.
\<close>

fun lossy_row :: "bool list \<Rightarrow> string" where
  "lossy_row (a # b # rest) = (if a \<or> b then CHR ''#'' else CHR ''.'') # lossy_row rest"
| "lossy_row [a] = [if a then CHR ''#'' else CHR ''.'']"
| "lossy_row [] = []"

fun lossy_read :: "string \<Rightarrow> bool list \<Rightarrow> bitmap" where
  "lossy_read [] row = []"
| "lossy_read (c # cs) row =
     (if c = CHR ''/'' then row # lossy_read cs []
      else lossy_read cs (row @ [c = CHR ''#'', c = CHR ''#'']))"

definition lossy_pil :: "(bitmap, string) pil" where
  "lossy_pil =
     sample_pil
       \<lparr>image_open := (\<lambda>content. Inr (lossy_read content [])),
        encode := (\<lambda>img path. Inr (concat (map (\<lambda>row. lossy_row row @ ''/'') img)))\<rparr>"

text \<open>A world that holds one image of 2 by 2 pixels with one red pixel.\<close>

definition dot_world :: "bitmap world" where
  "dot_world = sample_world\<lparr>images := [[[True, False], [False, False]]]\<rparr>"




text \<open>An SDK whose service finds the given blocks of text, and an environment.\<close>

definition sample_sdk :: "text_block list \<Rightarrow> sdk" where
  "sample_sdk blocks =
     \<lparr>new_client = (\<lambda>endpoint key. None),
      client_analyze = (\<lambda>endpoint key image_data.
         Inr \<lparr>result_caption = None, result_read = Some blocks\<rparr>),
      fmt4 = (\<lambda>r. let d = show_nat (nat \<lfloor>(r - of_int \<lfloor>r\<rfloor>) * 10000\<rfloor>)
                  in show_int \<lfloor>r\<rfloor> @ ''.'' @ replicate (4 - length d) CHR ''0'' @ d),
      fmt_polygon = (\<lambda>ps. ''[...]'')\<rparr>"

definition sample_objects_lib :: objects_lib where
  "sample_objects_lib =
     \<lparr>analyze_objects = (\<lambda>endpoint key image_data.
         Inr \<lparr>result_objects = None, metadata_height = 6, metadata_width = 6,
              model_version = ''2023-10-01''\<rparr>),
      fmt_box = (\<lambda>b. ''{...}'')\<rparr>"

definition sample_environ :: "string \<Rightarrow> string \<Rightarrow> string \<Rightarrow> string option" where
  "sample_environ endpoint key name =
     (if name = ''VISION_ENDPOINT'' then Some endpoint
      else if name = ''VISION_KEY'' then Some key
      else None)"

definition text_world :: "unit world" where
  "text_world =
     sample_world\<lparr>files := (files (sample_world :: unit world))(''text_sample.jpg'' := Inr ''JFIF'')\<rparr>"

definition sample_block :: "string \<Rightarrow> text_block" where
  "sample_block s = \<lparr>block_lines = [\<lparr>line_text = s, line_polygon = [], line_words = []\<rparr>]\<rparr>"

section \<open>Properties of the Python operations\<close>

lemma max_loop_scores:
  "\<exists>m ys zs. max_loop (fst b, JNum (snd b)) (map (\<lambda>(l, r). (l, JNum r)) rest) = Inr (fst m, JNum (snd m))
     \<and> b # rest = ys @ m # zs
     \<and> (\<forall>y \<in> set ys. snd y < snd m) \<and> (\<forall>z \<in> set zs. snd z \<le> snd m)"
proof (induction rest arbitrary: b)
  case Nil
  show ?case
    by (rule exI [of _ b], rule exI [of _ "[]"], rule exI [of _ "[]"]) simp
next
  case (Cons x xs)
  show ?case
  proof (cases "snd b < snd x")
    case True
    from Cons.IH [of x] obtain m ys zs where
      run: "max_loop (fst x, JNum (snd x)) (map (\<lambda>(l, r). (l, JNum r)) xs) = Inr (fst m, JNum (snd m))"
      and split: "x # xs = ys @ m # zs"
      and before: "\<forall>y \<in> set ys. snd y < snd m"
      and after: "\<forall>z \<in> set zs. snd z \<le> snd m"
      by blast
    have "x \<in> set (ys @ m # zs)" using split by (metis list.set_intros(1))
    then have "snd x \<le> snd m" using before after by auto
    with True have "snd b < snd m" by simp
    with before have before': "\<forall>y \<in> set (b # ys). snd y < snd m" by simp
    have "b # x # xs = (b # ys) @ m # zs" using split by simp
    moreover have "max_loop (fst b, JNum (snd b)) (map (\<lambda>(l, r). (l, JNum r)) (x # xs)) = Inr (fst m, JNum (snd m))"
      using True run by (simp add: case_prod_unfold)
    ultimately show ?thesis using before' after by blast
  next
    case False
    from Cons.IH [of b] obtain m ys zs where
      run: "max_loop (fst b, JNum (snd b)) (map (\<lambda>(l, r). (l, JNum r)) xs) = Inr (fst m, JNum (snd m))"
      and split: "b # xs = ys @ m # zs"
      and before: "\<forall>y \<in> set ys. snd y < snd m"
      and after: "\<forall>z \<in> set zs. snd z \<le> snd m"
      by blast
    have run': "max_loop (fst b, JNum (snd b)) (map (\<lambda>(l, r). (l, JNum r)) (x # xs)) = Inr (fst m, JNum (snd m))"
      using False run by (simp add: case_prod_unfold)
    show ?thesis
    proof (cases ys)
      case Nil
      with split have "m = b" "zs = xs" by simp_all
      then have "b # x # xs = [] @ m # (x # zs)" "\<forall>z \<in> set (x # zs). snd z \<le> snd m"
        using False after by auto
      with run' show ?thesis by (metis empty_iff empty_set)
    next
      case (Cons y ys')
      with split have "y = b" "xs = ys' @ m # zs" by simp_all
      then have "b # x # xs = (b # x # ys') @ m # zs" by simp
      moreover have "snd b < snd m" using before Cons \<open>y = b\<close> by simp
      then have "\<forall>y \<in> set (b # x # ys'). snd y < snd m"
        using False before Cons by auto
      ultimately show ?thesis using run' after by blast
    qed
  qed
qed

lemma Min4: "a \<le> b \<Longrightarrow> a \<le> c \<Longrightarrow> a \<le> d \<Longrightarrow> Min (set [a, b, c, d :: rat]) = a"
  by (simp add: min_def)

lemma Max4: "a \<le> b \<Longrightarrow> c \<le> b \<Longrightarrow> d \<le> b \<Longrightarrow> Max (set [a, b, c, d :: rat]) = b"
  by (simp add: max_def)

lemma Max4': "a \<le> c \<Longrightarrow> b \<le> c \<Longrightarrow> d \<le> c \<Longrightarrow> Max (set [a, b, c, d :: rat]) = c"
  by (simp add: max_def)

lemma line_box_run:
  assumes bb: "py_getitem line ''boundingBox'' = Inr (JArr (map JNum bb))"
    and len: "length bb = 8"
  shows "line_box line = Inr (map JNum [bb ! 0, bb ! 1, bb ! 2 - bb ! 0, bb ! 5 - bb ! 1])"
proof -
  have at: "bounding_at line i = Inr (JNum (bb ! i))" if "i < 8" for i
    using that by (simp add: bounding_at_def bindE_def bb len)
  show ?thesis
    by (simp add: line_box_def at bindE_def py_sub_def)
qed

section \<open>The rectangle of an OCR line\<close>

text \<open>
  C1, as the specification states it: for every OCR line whose \<^verbatim>\<open>boundingBox\<close> holds 8
  numbers, the rectangle derived for the annotation is the minimal enclosing rectangle
  (\<open>x\<close> the least x-coordinate, \<open>y\<close> the least y-coordinate, width and height reaching the
  greatest ones). The code does not do that: for the quadrilateral
  \<open>(10,5) (50,0) (55,20) (15,25)\<close> it takes \<open>y = 5\<close>, width \<open>40\<close> and height \<open>15\<close>, while the
  enclosing rectangle has \<open>y = 0\<close>, width \<open>45\<close> and height \<open>25\<close>.
\<close>

theorem line_box_counterexample:
  "line_box (ocr_line [10, 5, 50, 0, 55, 20, 15, 25]) = Inr [JNum 10, JNum 5, JNum 40, JNum 15] \<and>
   spec_enclosing_rect [10, 5, 50, 0, 55, 20, 15, 25] = [10, 0, 45, 25]"
  by (simp add: line_box_def bounding_at_def ocr_line_def bindE_def py_sub_def spec_enclosing_rect_def)

text \<open>
  C1, amended: for every OCR line whose \<^verbatim>\<open>boundingBox\<close> holds 8 numbers
  \<open>x0 y0 x1 y1 x2 y2 x3 y3\<close>, the derived rectangle is \<open>x = x0\<close>, \<open>y = y0\<close>,
  \<open>width = x1 - x0\<close>, \<open>height = y2 - y0\<close>. It is the minimal enclosing rectangle when the
  first point has the least x and the least y, the second point the greatest x and the
  third point the greatest y, as for an axis-aligned box listed clockwise from its top-left
  corner.
\<close>

theorem line_box_first_corner:
  assumes bb: "py_getitem line ''boundingBox'' = Inr (JArr (map JNum bb))"
    and len: "length bb = 8"
  shows "line_box line = Inr (map JNum [bb ! 0, bb ! 1, bb ! 2 - bb ! 0, bb ! 5 - bb ! 1]) \<and>
         ((\<forall>i \<in> {0, 2, 4, 6}. bb ! 0 \<le> bb ! i \<and> bb ! i \<le> bb ! 2) \<and>
          (\<forall>i \<in> {1, 3, 5, 7}. bb ! 1 \<le> bb ! i \<and> bb ! i \<le> bb ! 5)
          \<longrightarrow> line_box line = Inr (map JNum (spec_enclosing_rect bb)))"
proof -
  note run = line_box_run [OF bb len]
  have "spec_enclosing_rect bb = [bb ! 0, bb ! 1, bb ! 2 - bb ! 0, bb ! 5 - bb ! 1]"
    if x: "\<forall>i \<in> {0, 2, 4, 6}. bb ! 0 \<le> bb ! i \<and> bb ! i \<le> bb ! 2"
    and y: "\<forall>i \<in> {1, 3, 5, 7}. bb ! 1 \<le> bb ! i \<and> bb ! i \<le> bb ! 5"
  proof -
    from x have xs: "bb ! 0 \<le> bb ! 2" "bb ! 0 \<le> bb ! 4" "bb ! 0 \<le> bb ! 6"
      "bb ! 4 \<le> bb ! 2" "bb ! 6 \<le> bb ! 2" by simp_all
    from y have ys: "bb ! 1 \<le> bb ! 3" "bb ! 1 \<le> bb ! 5" "bb ! 1 \<le> bb ! 7"
      "bb ! 3 \<le> bb ! 5" "bb ! 7 \<le> bb ! 5" by simp_all
    have "Min (set [bb ! 0, bb ! 2, bb ! 4, bb ! 6]) = bb ! 0" using xs by (intro Min4)
    moreover have "Max (set [bb ! 0, bb ! 2, bb ! 4, bb ! 6]) = bb ! 2" using xs by (intro Max4)
    moreover have "Min (set [bb ! 1, bb ! 3, bb ! 5, bb ! 7]) = bb ! 1" using ys by (intro Min4)
    moreover have "Max (set [bb ! 1, bb ! 3, bb ! 5, bb ! 7]) = bb ! 5" using ys by (intro Max4')
    ultimately show ?thesis by (simp only: spec_enclosing_rect_def Let_def)
  qed
  with run show ?thesis by simp
qed

theorem line_box_first_corner_witness:
  "line_box (ocr_line [10, 5, 50, 5, 50, 25, 10, 25]) = Inr [JNum 10, JNum 5, JNum 40, JNum 20] \<and>
   line_box (ocr_line [10, 5, 50, 5, 50, 25, 10, 25])
     = Inr (map JNum (spec_enclosing_rect [10, 5, 50, 5, 50, 25, 10, 25]))"
proof -
  have a: "py_getitem (ocr_line [10, 5, 50, 5, 50, 25, 10, 25]) ''boundingBox''
             = Inr (JArr (map JNum [10, 5, 50, 5, 50, 25, 10, 25]))"
    by (simp add: ocr_line_def)
  have b: "length [10, 5, 50, 5, 50, 25, 10, 25 :: rat] = 8" by simp
  have c: "(\<forall>i \<in> {0, 2, 4, 6}. [10, 5, 50, 5, 50, 25, 10, 25 :: rat] ! 0 \<le> [10, 5, 50, 5, 50, 25, 10, 25] ! i
              \<and> [10, 5, 50, 5, 50, 25, 10, 25 :: rat] ! i \<le> [10, 5, 50, 5, 50, 25, 10, 25] ! 2) \<and>
           (\<forall>i \<in> {1, 3, 5, 7}. [10, 5, 50, 5, 50, 25, 10, 25 :: rat] ! 1 \<le> [10, 5, 50, 5, 50, 25, 10, 25] ! i
              \<and> [10, 5, 50, 5, 50, 25, 10, 25 :: rat] ! i \<le> [10, 5, 50, 5, 50, 25, 10, 25] ! 5)"
    by simp
  note t = line_box_first_corner [OF a b]
  from t have 1: "line_box (ocr_line [10, 5, 50, 5, 50, 25, 10, 25])
          = Inr (map JNum [[10, 5, 50, 5, 50, 25, 10, 25] ! 0, [10, 5, 50, 5, 50, 25, 10, 25] ! 1,
               [10, 5, 50, 5, 50, 25, 10, 25] ! 2 - [10, 5, 50, 5, 50, 25, 10, 25] ! 0,
               [10, 5, 50, 5, 50, 25, 10, 25] ! 5 - [10, 5, 50, 5, 50, 25, 10, 25] ! 1])"
    by (rule conjunct1)
  from t c have 2: "line_box (ocr_line [10, 5, 50, 5, 50, 25, 10, 25])
          = Inr (map JNum (spec_enclosing_rect [10, 5, 50, 5, 50, 25, 10, 25]))"
    by (rule conjunct2 [THEN mp])
  from 1 have 3: "line_box (ocr_line [10, 5, 50, 5, 50, 25, 10, 25]) = Inr [JNum 10, JNum 5, JNum 40, JNum 20]"
    by simp
  from 3 2 show ?thesis by (rule conjI)
qed

section \<open>The dominant emotion\<close>

text \<open>
  C4: for every face object with a non-empty emotion map, the dominant emotion is the label
  with the maximum score, and among several labels with the maximum score it is the first
  one in the iteration order of the map: every item before it has a strictly smaller score.
\<close>

theorem dominant_emotion_first_maximum:
  assumes attrs: "py_getitem face ''faceAttributes'' = Inr attrs"
    and emo: "py_getitem attrs ''emotion'' = Inr (JObj (map (\<lambda>(l, r). (l, JNum r)) scores))"
    and nonempty: "scores \<noteq> []"
  shows "\<exists>ys l r zs. scores = ys @ (l, r) # zs \<and> dominant_emotion face = Inr l
           \<and> r = Max (snd ` set scores) \<and> (\<forall>y \<in> set ys. snd y < r)"
proof -
  from nonempty obtain b rest where sc: "scores = b # rest" by (cases scores) auto
  from max_loop_scores [of b rest] obtain m ys zs where
    run: "max_loop (fst b, JNum (snd b)) (map (\<lambda>(l, r). (l, JNum r)) rest) = Inr (fst m, JNum (snd m))"
    and split: "b # rest = ys @ m # zs"
    and before: "\<forall>y \<in> set ys. snd y < snd m"
    and after: "\<forall>z \<in> set zs. snd z \<le> snd m"
    by blast
  have "py_max_by_value (map (\<lambda>(l, r). (l, JNum r)) scores) = Inr (fst m, JNum (snd m))"
    using run by (simp add: py_max_by_value_def sc case_prod_unfold)
  then have dom: "dominant_emotion face = Inr (fst m)"
    by (simp add: dominant_emotion_def bindE_def attrs emo)
  have fin: "finite (snd ` set scores)" by simp
  have mem: "snd m \<in> snd ` set scores" using split sc by auto
  have ub: "v \<le> snd m" if "v \<in> snd ` set scores" for v
  proof -
    from that obtain p where p: "p \<in> set scores" "v = snd p" by blast
    from p(1) have "p \<in> set (ys @ m # zs)" using split sc by simp
    then consider "p \<in> set ys" | "p = m" | "p \<in> set zs" by auto
    then show ?thesis using before after p(2) by cases (auto intro: less_imp_le)
  qed
  have mx: "Max (snd ` set scores) = snd m"
    by (rule Max_eqI) (use fin mem ub in auto)
  have sp: "scores = ys @ (fst m, snd m) # zs" using split sc by simp
  show ?thesis
    by (rule exI [of _ ys], rule exI [of _ "fst m"], rule exI [of _ "snd m"], rule exI [of _ zs])
       (intro conjI sp dom mx [symmetric] before)
qed

theorem dominant_emotion_first_maximum_witness:
  "dominant_emotion sample_face = Inr ''happy'' \<and>
   (\<exists>ys l r zs. sample_scores = ys @ (l, r) # zs
       \<and> dominant_emotion sample_face = Inr l
       \<and> r = Max (snd ` set sample_scores)
       \<and> (\<forall>y \<in> set ys. snd y < r))"
proof -
  have a: "py_getitem sample_face ''faceAttributes'' =
      Inr (JObj [(''age'', JNum 27), (''gender'', JStr ''female''),
                  (''emotion'', JObj [(''sad'', JNum (1/20)), (''happy'', JNum (9/10)),
                                      (''surprise'', JNum (9/10))])])"
    by (simp add: sample_face_def)
  have b: "py_getitem (JObj [(''age'', JNum 27), (''gender'', JStr ''female''),
                  (''emotion'', JObj [(''sad'', JNum (1/20)), (''happy'', JNum (9/10)),
                                      (''surprise'', JNum (9/10))])]) ''emotion'' =
      Inr (JObj (map (\<lambda>(l, r). (l, JNum r)) sample_scores))"
    by (simp add: sample_scores_def)
  have c: "sample_scores \<noteq> []" by (simp add: sample_scores_def)
  have d: "dominant_emotion sample_face = Inr ''happy''"
    by (simp add: sample_face_def dominant_emotion_def bindE_def py_max_by_value_def)
  from d dominant_emotion_first_maximum [OF a b c] show ?thesis by (rule conjI)
qed

section \<open>The analyze call\<close>

lemma show_nat_404: "show_nat 404 = ''404''"
  by (simp add: show_nat.simps)

text \<open>
  C9: when \<^verbatim>\<open>analyze_image\<close> is called with the features argument omitted, \<^verbatim>\<open>None\<close> or an
  empty list, and the image file can be read, exactly one request is posted, and its
  \<^verbatim>\<open>features\<close> query parameter is \<^verbatim>\<open>tags,objects,caption\<close>.
\<close>

theorem analyze_image_default_features:
  assumes feats: "features = None \<or> features = Some []"
    and readable: "files w image_path = Inr image_data"
  shows "posts (snd (analyze_image L c image_path features w)) =
           posts w @ [\<lparr>url = ENDPOINT c @ ''computervision/imageanalysis:analyze'',
                        headers = key_headers c,
                        params = [(''features'', ''tags,objects,caption''),
                                  (''language'', ''en''),
                                  (''gender-neutral-caption'', ''false'')],
                        data = image_data\<rparr>]"
proof -
  have ps: "analyze_params features =
      [(''features'', ''tags,objects,caption''), (''language'', ''en''),
       (''gender-neutral-caption'', ''false'')]"
    using feats by (auto simp: analyze_params_def)
  show ?thesis
    by (simp add: analyze_image_def ps post_image_def readable or_none_def print_def Let_def
        split: sum.split)
qed

theorem analyze_image_default_features_witness:
  "posts (snd (analyze_image (sample_http 200 ''OK'' ''[1]'') sample_config ''sample_image.jpg'' None
      (sample_world :: unit world))) =
     [\<lparr>url = ''https://vision.example/computervision/imageanalysis:analyze'',
       headers = [(''Ocp-Apim-Subscription-Key'', ''secret''),
                  (''Content-Type'', ''application/octet-stream'')],
       params = [(''features'', ''tags,objects,caption''), (''language'', ''en''),
                 (''gender-neutral-caption'', ''false'')],
       data = ''JFIF''\<rparr>]"
proof -
  have a: "(None :: string list option) = None \<or> None = Some []" by simp
  have b: "files (sample_world :: unit world) ''sample_image.jpg'' = Inr ''JFIF''"
    by (simp add: sample_world_def)
  from analyze_image_default_features [OF a b, of "sample_http 200 ''OK'' ''[1]''" sample_config]
  show ?thesis by (simp add: sample_config_def sample_world_def key_headers_def)
qed

text \<open>
  C2, as the specification states it: a response with a non-2xx status makes the call fail
  with an error that carries the status code and the response body, and the result is
  absent. The code does otherwise. A status outside 400 to 599 is no error for
  \<^verbatim>\<open>raise_for_status\<close>: with status 300 the parsed body is returned as the result. And for
  status 404 the outcome is the same whatever the body is, so the body is not carried.
\<close>

theorem analyze_image_non_2xx_counterexample:
  "analyze_image (sample_http 300 ''Multiple Choices'' ''[1]'') sample_config ''sample_image.jpg'' None
      (sample_world :: unit world) =
     (JArr [JNum 1],
      sample_world
        \<lparr>posts := [\<lparr>url = ''https://vision.example/computervision/imageanalysis:analyze'',
                     headers = [(''Ocp-Apim-Subscription-Key'', ''secret''),
                                (''Content-Type'', ''application/octet-stream'')],
                     params = [(''features'', ''tags,objects,caption''), (''language'', ''en''),
                               (''gender-neutral-caption'', ''false'')],
                     data = ''JFIF''\<rparr>]\<rparr>) \<and>
   analyze_image (sample_http 404 ''Not Found'' ''[1]'') sample_config ''sample_image.jpg'' None
      (sample_world :: unit world) =
   analyze_image (sample_http 404 ''Not Found'' ''null'') sample_config ''sample_image.jpg'' None
      (sample_world :: unit world)"
  by (simp add: analyze_image_def post_image_def raise_for_status_def or_none_def print_def
      Let_def sample_http_def sample_config_def sample_world_def key_headers_def
      analyze_params_def sample_json_loads_def)

text \<open>
  C2, amended: for every analyze call whose file can be read and whose response has a status
  from 400 to 599, \<^verbatim>\<open>analyze_image\<close> posts exactly one request (no retry), raises nothing,
  prints one line \<^verbatim>\<open>Error in analyze_image: \<close> followed by the status code, \<^verbatim>\<open>Client Error\<close>
  or \<^verbatim>\<open>Server Error\<close>, the reason phrase and the URL (not the body), and returns \<^verbatim>\<open>None\<close>.
  A response with any other status, the other non-2xx ones included, is handled as a
  success: one request is posted and the parsed body is the result (or, when the body does
  not parse, the text of that error is printed and \<^verbatim>\<open>None\<close> is returned).
\<close>

theorem analyze_image_http_error:
  assumes readable: "files w image_path = Inr image_data"
    and req: "req = \<lparr>url = ENDPOINT c @ ''computervision/imageanalysis:analyze'',
                        headers = key_headers c, params = analyze_params features,
                        data = image_data\<rparr>"
    and resp: "post L req = Inr r"
  shows "(400 \<le> status_code r \<and> status_code r < 600 \<longrightarrow>
            analyze_image L c image_path features w =
              (JNull,
               w\<lparr>posts := posts w @ [req],
                 stdout := stdout w @
                   [''Error in analyze_image: '' @ show_nat (status_code r) @
                    (if status_code r < 500 then '' Client Error: '' else '' Server Error: '') @
                    reason r @ '' for url: '' @ resp_url r]\<rparr>)) \<and>
         (status_code r < 400 \<or> 600 \<le> status_code r \<longrightarrow>
            analyze_image L c image_path features w =
              (case json_loads L (body r) of
                 Inr v \<Rightarrow> (v, w\<lparr>posts := posts w @ [req]\<rparr>)
               | Inl m \<Rightarrow>
                   (JNull,
                    w\<lparr>posts := posts w @ [req],
                      stdout := stdout w @ [''Error in analyze_image: '' @ m]\<rparr>)))"
  using resp unfolding req
  by (auto simp: analyze_image_def post_image_def readable raise_for_status_def or_none_def
      print_def Let_def split: sum.splits)

theorem analyze_image_http_error_witness:
  "analyze_image (sample_http 404 ''Not Found'' ''[1]'') sample_config ''sample_image.jpg'' None
      (sample_world :: unit world) =
     (JNull,
      sample_world
        \<lparr>posts := [\<lparr>url = ''https://vision.example/computervision/imageanalysis:analyze'',
                     headers = [(''Ocp-Apim-Subscription-Key'', ''secret''),
                                (''Content-Type'', ''application/octet-stream'')],
                     params = [(''features'', ''tags,objects,caption''), (''language'', ''en''),
                               (''gender-neutral-caption'', ''false'')],
                     data = ''JFIF''\<rparr>],
          stdout := [''Error in analyze_image: 404 Client Error: Not Found for url: https://vision.example/computervision/imageanalysis:analyze?features=tags%2Cobjects%2Ccaption&language=en&gender-neutral-caption=false'']\<rparr>) \<and>
   analyze_image (sample_http 200 ''OK'' ''[1]'') sample_config ''sample_image.jpg'' None
      (sample_world :: unit world) =
     (JArr [JNum 1],
      sample_world
        \<lparr>posts := [\<lparr>url = ''https://vision.example/computervision/imageanalysis:analyze'',
                     headers = [(''Ocp-Apim-Subscription-Key'', ''secret''),
                                (''Content-Type'', ''application/octet-stream'')],
                     params = [(''features'', ''tags,objects,caption''), (''language'', ''en''),
                               (''gender-neutral-caption'', ''false'')],
                     data = ''JFIF''\<rparr>]\<rparr>)"
proof -
  let ?req = "\<lparr>url = ENDPOINT sample_config @ ''computervision/imageanalysis:analyze'',
                headers = key_headers sample_config, params = analyze_params None,
                data = ''JFIF''\<rparr>"
  let ?r = "\<lambda>status phrase. \<lparr>status_code = status, reason = phrase,
                resp_url = url ?req @ ''?'' @ sample_query (params ?req), body = ''[1]''\<rparr>"
  have a: "files (sample_world :: unit world) ''sample_image.jpg'' = Inr ''JFIF''"
    by (simp add: sample_world_def)
  have b: "post (sample_http status phrase ''[1]'') ?req = Inr (?r status phrase)" for status phrase
    by (simp add: sample_http_def)
  have q: "sample_query (analyze_params None)
      = ''features=tags%2Cobjects%2Ccaption&language=en&gender-neutral-caption=false''"
    by (simp add: sample_query_def analyze_params_def)
  have j: "json_loads (sample_http 200 ''OK'' ''[1]'') ''[1]'' = Inr (JArr [JNum 1])"
    by (simp add: sample_http_def sample_json_loads_def)
  have c1: "400 \<le> status_code (?r 404 ''Not Found'') \<and> status_code (?r 404 ''Not Found'') < 600"
    by simp
  have c2: "status_code (?r 200 ''OK'') < 400 \<or> 600 \<le> status_code (?r 200 ''OK'')"
    by simp
  note 1 = analyze_image_http_error [OF a refl b, of 404 "''Not Found''", THEN conjunct1, THEN mp, OF c1]
  note 2 = analyze_image_http_error [OF a refl b, of 200 "''OK''", THEN conjunct2, THEN mp, OF c2]
  show ?thesis
    unfolding 1 2
    by (simp add: q j show_nat_404 sample_config_def key_headers_def)
      (simp add: sample_world_def analyze_params_def)
qed

section \<open>Missing configuration\<close>

text \<open>
  C3, as the specification states it: whenever the endpoint or the key is empty or missing,
  the client fails before any network call. main.py does not check for an empty value: with
  an empty key the module loads, and \<^verbatim>\<open>analyze_image\<close> posts a request whose key header is
  empty.
\<close>

theorem empty_key_counterexample:
  "load_config (sample_environ ''https://vision.example/'' '''')
     = Inr \<lparr>ENDPOINT = ''https://vision.example/'', API_KEY = ''''\<rparr> \<and>
   posts (snd (analyze_image (sample_http 401 ''Unauthorized'' ''[]'')
                \<lparr>ENDPOINT = ''https://vision.example/'', API_KEY = ''''\<rparr>
                ''sample_image.jpg'' None (sample_world :: unit world))) =
     [\<lparr>url = ''https://vision.example/computervision/imageanalysis:analyze'',
       headers = [(''Ocp-Apim-Subscription-Key'', ''''),
                  (''Content-Type'', ''application/octet-stream'')],
       params = [(''features'', ''tags,objects,caption''), (''language'', ''en''),
                 (''gender-neutral-caption'', ''false'')],
       data = ''JFIF''\<rparr>]"
  by (simp add: load_config_def sample_environ_def analyze_image_def post_image_def
      raise_for_status_def or_none_def print_def Let_def sample_http_def sample_world_def
      key_headers_def analyze_params_def)

text \<open>
  C3, amended: in OCR.py, caption.py and objects.py, whenever the endpoint or the key is
  missing or empty, the script prints its two lines and exits (\<^verbatim>\<open>SystemExit\<close>) before the
  client is made and before any call to the service: the world changes in its output only.
  In main.py a missing variable raises \<^verbatim>\<open>KeyError\<close> while the module is loaded, before any
  request. A value that is present is not checked there, empty or not: the module loads
  with it, and \<^verbatim>\<open>analyze_image\<close> hands its request to \<^verbatim>\<open>requests.post\<close> whatever the endpoint
  and the key are, once the image file has been read.
\<close>

theorem OCR_missing_configuration:
  "(unset (environ ''VISION_ENDPOINT'') \<or> unset (environ ''VISION_KEY'') \<longrightarrow>
      OCR S environ w =
        (Inl SystemExit,
         w\<lparr>stdout := stdout w @
              [''Missing environment variable '' @ [CHR 0x27] @ ''VISION_ENDPOINT'' @ [CHR 0x27] @
               '' or '' @ [CHR 0x27] @ ''VISION_KEY'' @ [CHR 0x27],
               ''Set them before running this sample.'']\<rparr>) \<and>
      caption S environ w = OCR S environ w \<and>
      sample_objects_image_file S B environ w = OCR S environ w) \<and>
   (environ ''VISION_ENDPOINT'' = None \<or> environ ''VISION_KEY'' = None \<longrightarrow>
      load_config environ = Inl KeyError) \<and>
   (environ ''VISION_ENDPOINT'' = Some e \<and> environ ''VISION_KEY'' = Some k \<longrightarrow>
      load_config environ = Inr \<lparr>ENDPOINT = e, API_KEY = k\<rparr>) \<and>
   (files w image_path = Inr image_data \<longrightarrow>
      posts (snd (analyze_image L c image_path features w)) =
        posts w @ [\<lparr>url = ENDPOINT c @ ''computervision/imageanalysis:analyze'',
                     headers = [(''Ocp-Apim-Subscription-Key'', API_KEY c),
                                (''Content-Type'', ''application/octet-stream'')],
                     params = analyze_params features, data = image_data\<rparr>])"
proof -
  have 1: "unset (environ ''VISION_ENDPOINT'') \<or> unset (environ ''VISION_KEY'') \<longrightarrow>
      OCR S environ w =
        (Inl SystemExit,
         w\<lparr>stdout := stdout w @
              [''Missing environment variable '' @ [CHR 0x27] @ ''VISION_ENDPOINT'' @ [CHR 0x27] @
               '' or '' @ [CHR 0x27] @ ''VISION_KEY'' @ [CHR 0x27],
               ''Set them before running this sample.'']\<rparr>) \<and>
      caption S environ w = OCR S environ w \<and>
      sample_objects_image_file S B environ w = OCR S environ w"
    by (auto simp: OCR_def caption_def sample_objects_image_file_def print_def)
  have 2: "environ ''VISION_ENDPOINT'' = None \<or> environ ''VISION_KEY'' = None \<longrightarrow>
      load_config environ = Inl KeyError"
    by (auto simp: load_config_def split: option.splits)
  have 3: "environ ''VISION_ENDPOINT'' = Some e \<and> environ ''VISION_KEY'' = Some k \<longrightarrow>
      load_config environ = Inr \<lparr>ENDPOINT = e, API_KEY = k\<rparr>"
    by (simp add: load_config_def)
  have 4: "files w image_path = Inr image_data \<longrightarrow>
      posts (snd (analyze_image L c image_path features w)) =
        posts w @ [\<lparr>url = ENDPOINT c @ ''computervision/imageanalysis:analyze'',
                     headers = [(''Ocp-Apim-Subscription-Key'', API_KEY c),
                                (''Content-Type'', ''application/octet-stream'')],
                     params = analyze_params features, data = image_data\<rparr>]"
    by (simp add: analyze_image_def post_image_def or_none_def print_def Let_def key_headers_def
        split: sum.split)
  from 1 2 3 4 show ?thesis by (intro conjI)
qed

theorem OCR_missing_configuration_witness:
  "OCR (sample_sdk []) (sample_environ ''https://vision.example/'' '''') text_world =
     (Inl SystemExit,
      text_world\<lparr>stdout :=
         [''Missing environment variable '' @ [CHR 0x27] @ ''VISION_ENDPOINT'' @ [CHR 0x27] @
          '' or '' @ [CHR 0x27] @ ''VISION_KEY'' @ [CHR 0x27],
          ''Set them before running this sample.'']\<rparr>) \<and>
   caption (sample_sdk []) (sample_environ ''https://vision.example/'' '''') text_world =
     OCR (sample_sdk []) (sample_environ ''https://vision.example/'' '''') text_world \<and>
   sample_objects_image_file (sample_sdk []) sample_objects_lib
       (sample_environ ''https://vision.example/'' '''') text_world =
     OCR (sample_sdk []) (sample_environ ''https://vision.example/'' '''') text_world \<and>
   sdk_calls (snd (OCR (sample_sdk []) (sample_environ ''https://vision.example/'' '''') text_world)) = 0 \<and>
   load_config (\<lambda>name. if name = ''VISION_KEY'' then Some ''secret'' else None) = Inl KeyError \<and>
   load_config (sample_environ '''' ''secret'') = Inr \<lparr>ENDPOINT = '''', API_KEY = ''secret''\<rparr> \<and>
   posts (snd (analyze_image (sample_http 401 ''Unauthorized'' ''[]'')
                \<lparr>ENDPOINT = ''https://vision.example/'', API_KEY = ''''\<rparr>
                ''sample_image.jpg'' (Some [''read'']) (sample_world :: unit world))) =
     [\<lparr>url = ''https://vision.example/computervision/imageanalysis:analyze'',
       headers = [(''Ocp-Apim-Subscription-Key'', ''''),
                  (''Content-Type'', ''application/octet-stream'')],
       params = [(''features'', ''read''), (''language'', ''en''),
                 (''gender-neutral-caption'', ''false'')],
       data = ''JFIF''\<rparr>]"
proof -
  let ?env = "sample_environ ''https://vision.example/'' ''''"
  let ?miss = "\<lambda>name. if name = ''VISION_KEY'' then Some ''secret'' else None"
  have a: "unset (?env ''VISION_ENDPOINT'') \<or> unset (?env ''VISION_KEY'')"
    by (simp add: unset_def sample_environ_def)
  have b: "?miss ''VISION_ENDPOINT'' = None \<or> ?miss ''VISION_KEY'' = None"
    by simp
  have c: "sample_environ '''' ''secret'' ''VISION_ENDPOINT'' = Some '''' \<and>
           sample_environ '''' ''secret'' ''VISION_KEY'' = Some ''secret''"
    by (simp add: sample_environ_def)
  have d: "files (sample_world :: unit world) ''sample_image.jpg'' = Inr ''JFIF''"
    by (simp add: sample_world_def)
  have o: "stdout text_world = []" "sdk_calls text_world = 0"
    by (simp_all add: text_world_def sample_world_def)
  note 1 = OCR_missing_configuration [where environ = ?env and S = "sample_sdk []"
      and w = text_world and B = sample_objects_lib, THEN conjunct1, THEN mp, OF a]
  note 2 = OCR_missing_configuration [where environ = ?miss,
      THEN conjunct2, THEN conjunct1, THEN mp, OF b]
  note 3 = OCR_missing_configuration [where environ = "sample_environ '''' ''secret''"
      and e = "''''" and k = "''secret''",
      THEN conjunct2, THEN conjunct2, THEN conjunct1, THEN mp, OF c]
  note 4 = OCR_missing_configuration [where w = "sample_world :: unit world"
      and image_path = "''sample_image.jpg''" and image_data = "''JFIF''"
      and L = "sample_http 401 ''Unauthorized'' ''[]''"
      and c = "\<lparr>ENDPOINT = ''https://vision.example/'', API_KEY = ''''\<rparr>"
      and features = "Some [''read'']",
      THEN conjunct2, THEN conjunct2, THEN conjunct2, THEN mp, OF d]
  have p: "posts (sample_world :: unit world) = []" by (simp add: sample_world_def)
  show ?thesis
    using 1 2 3 4 o p by (simp add: analyze_params_def)
qed

section \<open>The report of OCR.py\<close>

lemma stdout_print_all: "stdout (print_all ls v) = stdout v @ ls"
  unfolding print_all_def by (induction ls arbitrary: v) (simp_all add: print_def)

text \<open>
  C10: when the configuration is present, the client is made, the image is read and
  \<^verbatim>\<open>result.read\<close> is not \<^verbatim>\<open>None\<close>, OCR.py indexes \<^verbatim>\<open>blocks[0]\<close> without a guard: on an
  empty list of blocks it raises \<^verbatim>\<open>IndexError\<close>, and on a non-empty one it returns and prints
  the lines (and words) of the first block only, whatever the later blocks hold.
\<close>

theorem OCR_first_block_only:
  assumes env: "environ ''VISION_ENDPOINT'' = Some endpoint" "endpoint \<noteq> []"
      "environ ''VISION_KEY'' = Some key" "key \<noteq> []"
    and client: "new_client S endpoint key = None"
    and readable: "files w ''text_sample.jpg'' = Inr image_data"
    and result: "client_analyze S endpoint key image_data = Inr result"
    and blocks: "result_read result = Some blocks"
  shows "(blocks = [] \<longrightarrow> fst (OCR S environ w) = Inl IndexError) \<and>
         (\<forall>b rest. blocks = b # rest \<longrightarrow>
            fst (OCR S environ w) = Inr () \<and>
            stdout (snd (OCR S environ w)) =
              stdout w @ [''Image analysis results:'', '' Caption:''] @
              (case result_caption result of
                 None \<Rightarrow> []
               | Some c \<Rightarrow> [''   '' @ [CHR 0x27] @ caption_text c @ [CHR 0x27] @ '', Confidence '' @
                            fmt4 S (caption_confidence c)]) @
              ['' Read:''] @ concat (map (line_report S) (block_lines b)))"
  using env
  by (auto simp: OCR_def unset_def client readable result blocks report_result_def Let_def
      stdout_print_all print_def split: option.splits)

theorem OCR_first_block_only_witness:
  "fst (OCR (sample_sdk []) (sample_environ ''https://vision.example/'' ''secret'') text_world)
     = Inl IndexError \<and>
   fst (OCR (sample_sdk [sample_block ''first'', sample_block ''second''])
          (sample_environ ''https://vision.example/'' ''secret'') text_world) = Inr () \<and>
   stdout (snd (OCR (sample_sdk [sample_block ''first'', sample_block ''second''])
          (sample_environ ''https://vision.example/'' ''secret'') text_world)) =
     [''Image analysis results:'', '' Caption:'', '' Read:'',
      ''   Line: '' @ [CHR 0x27] @ ''first'' @ [CHR 0x27] @ '', Bounding box [...]'']"
proof -
  let ?env = "sample_environ ''https://vision.example/'' ''secret''"
  have e: "?env ''VISION_ENDPOINT'' = Some ''https://vision.example/''"
      "''https://vision.example/'' \<noteq> []" "?env ''VISION_KEY'' = Some ''secret''" "''secret'' \<noteq> []"
    by (simp_all add: sample_environ_def)
  have c: "new_client (sample_sdk bs) ''https://vision.example/'' ''secret'' = None" for bs
    by (simp add: sample_sdk_def)
  have f: "files text_world ''text_sample.jpg'' = Inr ''JFIF''"
    by (simp add: text_world_def)
  have r: "client_analyze (sample_sdk bs) ''https://vision.example/'' ''secret'' ''JFIF''
             = Inr \<lparr>result_caption = None, result_read = Some bs\<rparr>" for bs
    by (simp add: sample_sdk_def)
  have b: "result_read \<lparr>result_caption = None, result_read = Some bs\<rparr> = Some bs" for bs
    by simp
  from OCR_first_block_only [OF e c f r b, of "[]"]
  have 1: "fst (OCR (sample_sdk []) ?env text_world) = Inl IndexError" by simp
  from OCR_first_block_only [OF e c f r b, of "[sample_block ''first'', sample_block ''second'']"]
  have 2: "fst (OCR (sample_sdk [sample_block ''first'', sample_block ''second'']) ?env text_world) = Inr () \<and>
     stdout (snd (OCR (sample_sdk [sample_block ''first'', sample_block ''second'']) ?env text_world)) =
       stdout text_world @ [''Image analysis results:'', '' Caption:'', '' Read:''] @
       concat (map (line_report (sample_sdk [sample_block ''first'', sample_block ''second'']))
                 (block_lines (sample_block ''first'')))"
    by simp
  have 3: "stdout text_world = []" by (simp add: text_world_def sample_world_def)
  show ?thesis using 1 2 3
    by (simp add: line_report_def sample_block_def sample_sdk_def)
qed

section \<open>The face demo on a failed detection and on an empty result\<close>








section \<open>The renderer\<close>

lemma save_other:
  "b \<noteq> a \<Longrightarrow> images (snd (save_image_with_annotations P a anns path w)) ! b = images w ! b"
  by (simp add: save_image_with_annotations_def Let_def print_def split: sum.splits option.splits)

text \<open>On an annotation as the demos build it, a box of four numbers and a string label,
  the body of the loop draws the rectangle from \<open>(x, y)\<close> to \<open>(x + w, y + h)\<close> and the label at
  \<open>(x, y - 20)\<close>, and only the two drawing calls of the library can fail.\<close>

lemma annotate_one_valid:
  "annotate_one P font
     (JObj [(''box'', JArr [JNum x, JNum y, JNum w, JNum h]), (''label'', JStr s)]) img =
     (case rectangle P img (JNum x, JNum y) (JNum (x + w), JNum (y + h)) of
        Inl e \<Rightarrow> (Some e, img)
      | Inr img1 \<Rightarrow>
          (case draw_text P img1 (JNum x, JNum (y - 20)) (JStr s) font of
             Inl e \<Rightarrow> (Some e, img1)
           | Inr img2 \<Rightarrow> (None, img2)))"
  by (simp add: annotate_one_def unpack4_def bindE_def py_sub_def split: sum.split)

lemma sample_select_font: "select_font sample_pil = Inr ''default''"
  by (simp add: select_font_def sample_pil_def)

lemma sample_drawn:
  "annotate_all sample_pil ''default'' [sample_annotation] (replicate 6 (replicate 6 False))
     = (None, framed)"
  by (simp add: annotate_one_def sample_annotation_def unpack4_def bindE_def py_sub_def
      sample_pil_def sample_rectangle_def sample_text_def paint_def framed_def
      eval_nat_numeral enumerate_eq_zip)

text \<open>
  C5, as the specification states it: the renderer works on a copy and leaves the image
  object of its caller unchanged. \<^verbatim>\<open>save_image_with_annotations\<close> draws on the object it is
  given: a blank image passed with one annotation holds the red frame afterwards.
\<close>

theorem render_in_place_counterexample:
  "images blank_world ! 0 = replicate 6 (replicate 6 False) \<and>
   fst (save_image_with_annotations sample_pil 0 [sample_annotation] ''out.jpg'' blank_world) = Inr 0 \<and>
   images (snd (save_image_with_annotations sample_pil 0 [sample_annotation] ''out.jpg'' blank_world)) ! 0
     = framed"
proof -
  have img: "images blank_world ! 0 = replicate 6 (replicate 6 False)"
    by (simp add: blank_world_def)
  have enc: "encode sample_pil framed ''out.jpg''
      = Inr (concat (map (map (\<lambda>p. if p then CHR ''#'' else CHR ''.'')) framed))"
    by (simp add: sample_pil_def sample_encode_def)
  show ?thesis
    by (simp add: save_image_with_annotations_def sample_select_font img sample_drawn enc Let_def
        print_def del: annotate_all.simps)
      (simp add: blank_world_def)
qed

text \<open>
  C5, amended: \<^verbatim>\<open>save_image_with_annotations\<close> draws on the image object it is given and
  returns that same object: after the call the object holds the drawn image. The copy is
  made by the callers: the demos pass \<^verbatim>\<open>img.copy()\<close>, and after such a call the image
  object they loaded is unchanged.
\<close>

theorem render_draws_in_place:
  assumes valid: "original_image < length (images w)"
  shows "(select_font P = Inr font \<longrightarrow>
            images (snd (save_image_with_annotations P original_image annotations output_path w)) =
              (images w)[original_image :=
                 snd (annotate_all P font annotations (images w ! original_image))]) \<and>
         (\<forall>a. fst (save_image_with_annotations P original_image annotations output_path w) = Inr a
              \<longrightarrow> a = original_image) \<and>
         images (snd (annotate_copy P (Some original_image) annotations output_path w)) ! original_image
           = images w ! original_image"
proof -
  have 1: "select_font P = Inr font \<longrightarrow>
            images (snd (save_image_with_annotations P original_image annotations output_path w)) =
              (images w)[original_image :=
                 snd (annotate_all P font annotations (images w ! original_image))]"
    by (simp add: save_image_with_annotations_def Let_def print_def split: sum.splits option.splits)
  have 2: "\<forall>a. fst (save_image_with_annotations P original_image annotations output_path w) = Inr a
              \<longrightarrow> a = original_image"
    by (auto simp: save_image_with_annotations_def Let_def print_def split: sum.splits option.splits)
  have 3: "images (snd (annotate_copy P (Some original_image) annotations output_path w)) ! original_image
           = images w ! original_image"
  proof (cases "annotations = []")
    case True
    then show ?thesis by (simp add: annotate_copy_def)
  next
    case False
    have "images (snd (save_image_with_annotations P (length (images w)) annotations output_path
              (w\<lparr>images := images w @ [images w ! original_image]\<rparr>))) ! original_image
          = images (w\<lparr>images := images w @ [images w ! original_image]\<rparr>) ! original_image"
      using valid by (intro save_other) simp
    with False valid show ?thesis
      by (simp add: annotate_copy_def image_copy_def Let_def nth_append)
  qed
  from 1 2 3 show ?thesis by blast
qed

theorem render_draws_in_place_witness:
  "images (snd (save_image_with_annotations sample_pil 0 [sample_annotation] ''out.jpg'' blank_world))
     = [framed] \<and>
   images (snd (annotate_copy sample_pil (Some 0) [sample_annotation] ''out.jpg'' blank_world)) ! 0
     = replicate 6 (replicate 6 False)"
proof -
  have v: "0 < length (images blank_world)" by (simp add: blank_world_def)
  have img: "images blank_world = [replicate 6 (replicate 6 False)]"
    by (simp add: blank_world_def)
  note t = render_draws_in_place [OF v, of sample_pil "''default''" "[sample_annotation]" "''out.jpg''"]
  from t sample_select_font
  have 1: "images (snd (save_image_with_annotations sample_pil 0 [sample_annotation] ''out.jpg'' blank_world))
     = (images blank_world)[0 := snd (annotate_all sample_pil ''default'' [sample_annotation]
           (images blank_world ! 0))]"
    by blast
  from t have 2: "images (snd (annotate_copy sample_pil (Some 0) [sample_annotation] ''out.jpg''
      blank_world)) ! 0 = images blank_world ! 0"
    by blast
  show ?thesis using 1 2 by (simp add: img sample_drawn del: annotate_all.simps)
qed











text \<open>
  C8, as the specification states it: with an empty list of annotations the image written
  to the output path is identical to the input image. What is written is the library's
  encoding of the image, and an encoding may lose information: with a lossy format, the
  image with one red pixel is written as a file that reads back with two red pixels.
\<close>

theorem render_reencodes_counterexample:
  "images dot_world ! 0 = [[True, False], [False, False]] \<and>
   save_image_with_annotations lossy_pil 0 [] ''out.jpg'' dot_world =
     (Inr 0,
      dot_world\<lparr>files := (files dot_world)(''out.jpg'' := Inr ''#/./''),
                stdout := [''Annotated image saved to out.jpg'']\<rparr>) \<and>
   image_open lossy_pil ''#/./'' = Inr [[True, True], [False, False]]"
  by (simp add: save_image_with_annotations_def select_font_def lossy_pil_def sample_pil_def
      dot_world_def sample_world_def print_def Let_def)

text \<open>
  C8, amended: rendering with an empty list of annotations draws nothing. When a font is
  selected and the save succeeds, the image object is unchanged, the file written under the
  output path is the library's encoding of the unchanged input image, one line is printed,
  and the same object is returned.
\<close>

theorem render_empty_annotations:
  assumes valid: "original_image < length (images w)"
    and font: "select_font P = Inr font"
    and saved: "encode P (images w ! original_image) output_path = Inr bytes"
  shows "save_image_with_annotations P original_image [] output_path w =
           (Inr original_image,
            w\<lparr>files := (files w)(output_path := Inr bytes),
              stdout := stdout w @ [''Annotated image saved to '' @ output_path]\<rparr>)"
  by (simp add: save_image_with_annotations_def font saved Let_def print_def)

theorem render_empty_annotations_witness:
  "save_image_with_annotations sample_pil 0 [] ''out.png'' blank_world =
     (Inr 0,
      blank_world\<lparr>files := (files blank_world)(''out.png'' := Inr (replicate 36 CHR ''.'')),
                  stdout := [''Annotated image saved to out.png'']\<rparr>) \<and>
   images blank_world = [replicate 6 (replicate 6 False)]"
proof -
  have v: "0 < length (images blank_world)" by (simp add: blank_world_def)
  have enc: "encode sample_pil (images blank_world ! 0) ''out.png'' = Inr (replicate 36 CHR ''.'')"
    by (simp add: sample_pil_def sample_encode_def blank_world_def eval_nat_numeral)
  have out: "stdout blank_world = []" by (simp add: blank_world_def sample_world_def)
  from render_empty_annotations [OF v sample_select_font enc] out
  show ?thesis by (simp add: blank_world_def)
qed

end
